theory Spec2Isabelle
  imports Complex_Main
begin

section \<open>Data model (types.ts)\<close>

text \<open>
  The TypeScript \<^verbatim>\<open>number\<close> fields that hold stock levels, quantities and money
  are modelled as \<^typ>\<open>int\<close> (the seed data and the forms use whole numbers); the
  averages of the chart projections are \<^typ>\<open>real\<close>.

  A calendar date is kept by the source as the string \<^verbatim>\<open>YYYY-MM-DD\<close>. The model
  keeps its day number (days since 1970-01-01), so that
  \<^verbatim>\<open>new Date(s).getTime()\<close> is the day number times the milliseconds of a day and
  \<^verbatim>\<open>d.toISOString().split('T')[0]\<close> is the day the instant falls in, in UTC.
  An instant (\<^verbatim>\<open>new Date()\<close>) is its time value, the number of milliseconds since
  the epoch. \<^verbatim>\<open>getDate\<close> and \<^verbatim>\<open>setDate\<close> work on the local calendar: the offset
  of local time from UTC is a parameter of the model (see \<open>setDateBy\<close> below).
\<close>

type_synonym isodate = int

type_synonym instant = int

record Product =
  id_product :: string
  name :: string
  category :: string
  currentStock :: int
  minStock :: int
  price :: int
  cost :: int
  lastRestocked :: isodate

datatype InvoiceType = SALE | PURCHASE

record InvoiceItem =
  productId :: string
  productName :: string
  quantity :: int
  unitPrice :: int
  total :: int

record Invoice =
  id_invoice :: string
  type_invoice :: InvoiceType
  date :: isodate
  items :: "InvoiceItem list"
  totalAmount :: int
  notes_invoice :: "string option"

section \<open>The application state and its handlers (App.tsx)\<close>

text \<open>The two \<^verbatim>\<open>useState\<close> cells of \<^verbatim>\<open>App\<close> that the handlers read and write.\<close>

record AppState =
  products :: "Product list"
  invoices :: "Invoice list"

definition handleAddProduct :: "Product \<Rightarrow> AppState \<Rightarrow> AppState" where
  "handleAddProduct newProduct s = s\<lparr>products := products s @ [newProduct]\<rparr>"

definition handleUpdateProduct :: "Product \<Rightarrow> AppState \<Rightarrow> AppState" where
  "handleUpdateProduct updatedProduct s =
     s\<lparr>products :=
         map (\<lambda>p. if id_product p = id_product updatedProduct then updatedProduct else p)
           (products s)\<rparr>"

definition handleDeleteProduct :: "string \<Rightarrow> AppState \<Rightarrow> AppState" where
  "handleDeleteProduct i s = s\<lparr>products := filter (\<lambda>p. id_product p \<noteq> i) (products s)\<rparr>"

text \<open>
  The body of the \<^verbatim>\<open>products.map\<close> callback of \<^verbatim>\<open>handleAddInvoice\<close>:
  \<^verbatim>\<open>items.find\<close> gives the first line item of the product, if any.
\<close>

definition updateStock :: "Invoice \<Rightarrow> Product \<Rightarrow> Product" where
  "updateStock newInvoice p =
     (case find (\<lambda>i. productId i = id_product p) (items newInvoice) of
        Some itemInInvoice \<Rightarrow>
          (let quantityChange = quantity itemInInvoice in
           if type_invoice newInvoice = SALE
           then p\<lparr>currentStock := max 0 (currentStock p - quantityChange)\<rparr>
           else p\<lparr>currentStock := currentStock p + quantityChange,
                  lastRestocked := date newInvoice\<rparr>)
      | None \<Rightarrow> p)"

definition handleAddInvoice :: "Invoice \<Rightarrow> AppState \<Rightarrow> AppState" where
  "handleAddInvoice newInvoice s =
     s\<lparr>invoices := invoices s @ [newInvoice],
       products := map (updateStock newInvoice) (products s)\<rparr>"

section \<open>Dates and local time\<close>

text \<open>\<^verbatim>\<open>new Date(d.date).getTime()\<close>: midnight (UTC) of the day, in milliseconds.\<close>

definition getTime :: "isodate \<Rightarrow> instant" where
  "getTime d = d * 86400000"

text \<open>\<^verbatim>\<open>d.toISOString().split('T')[0]\<close>: the day, in UTC, that the instant falls in.\<close>

definition toISODate :: "instant \<Rightarrow> isodate" where
  "toISODate t = t div 86400000"

text \<open>
  The local time zone is the \<open>LocalTZA(t, isUTC)\<close> of ECMAScript: the offset of local time
  from UTC, in milliseconds, at the UTC instant \<open>t\<close> when \<open>isUTC\<close> holds, and at the local
  time \<open>t\<close> otherwise. It belongs to the host, so the model takes it as a parameter.
\<close>

type_synonym LocalTZA = "int \<Rightarrow> bool \<Rightarrow> int"

definition LocalTime :: "LocalTZA \<Rightarrow> instant \<Rightarrow> int" where
  "LocalTime tza t = t + tza t True"

definition UTC_of :: "LocalTZA \<Rightarrow> int \<Rightarrow> instant" where
  "UTC_of tza t = t - tza t False"

text \<open>
  \<^verbatim>\<open>d.setDate(d.getDate() + k)\<close>, by the rules of ECMAScript for \<^verbatim>\<open>setDate\<close>: the
  time value is taken to local time (\<open>LocalTime\<close>), the day is moved by \<open>k\<close> days with the
  time within the day kept (\<open>MakeDay\<close>, \<open>MakeDate\<close>), and the result is taken back to
  UTC. Time values stay far inside the range of \<^verbatim>\<open>Date\<close>, so nothing is clipped.
\<close>

definition setDateBy :: "LocalTZA \<Rightarrow> instant \<Rightarrow> int \<Rightarrow> instant" where
  "setDateBy tza t k = UTC_of tza (LocalTime tza t + k * 86400000)"

section \<open>The billing form (Billing component)\<close>

text \<open>
  The \<^verbatim>\<open>useState\<close> cells of \<^verbatim>\<open>Billing\<close> that its handlers read and write
  (\<^verbatim>\<open>activeTab\<close> only selects what is drawn).
\<close>

record BillingState =
  invoiceType :: InvoiceType
  selectedProduct :: string
  currentQty :: int
  currentItems :: "InvoiceItem list"

text \<open>\<^verbatim>\<open>Array.prototype.findIndex\<close>, with \<open>None\<close> for the source's \<open>-1\<close>.\<close>

fun findIndex :: "('a \<Rightarrow> bool) \<Rightarrow> 'a list \<Rightarrow> nat option" where
  "findIndex P [] = None"
| "findIndex P (x # xs) =
     (if P x then Some 0 else (case findIndex P xs of None \<Rightarrow> None | Some k \<Rightarrow> Some (Suc k)))"

definition handleAddItem :: "Product list \<Rightarrow> BillingState \<Rightarrow> BillingState" where
  "handleAddItem ps b =
     (case find (\<lambda>p. id_product p = selectedProduct b) ps of
        None \<Rightarrow> b
      | Some product \<Rightarrow>
          (let unitPrice' = (if invoiceType b = SALE then price product else cost product) in
           case findIndex (\<lambda>item. productId item = id_product product) (currentItems b) of
             Some existingItemIndex \<Rightarrow>
               (let old = currentItems b ! existingItemIndex;
                    q = quantity old + currentQty b
                in b\<lparr>currentItems :=
                       (currentItems b)[existingItemIndex :=
                          old\<lparr>quantity := q, total := q * unitPrice'\<rparr>],
                     currentQty := 1, selectedProduct := ''''\<rparr>)
           | None \<Rightarrow>
               b\<lparr>currentItems := currentItems b @
                     [\<lparr>productId = id_product product, productName = name product,
                       quantity = currentQty b, unitPrice = unitPrice',
                       total = currentQty b * unitPrice'\<rparr>],
                 currentQty := 1, selectedProduct := ''''\<rparr>))"

definition handleRemoveItem :: "nat \<Rightarrow> BillingState \<Rightarrow> BillingState" where
  "handleRemoveItem index b =
     b\<lparr>currentItems :=
         map snd (filter (\<lambda>(i, _). i \<noteq> index) (enumerate 0 (currentItems b)))\<rparr>"

text \<open>
  The invoice that \<^verbatim>\<open>handleSaveInvoice\<close> builds: \<open>uuid\<close> stands for
  \<^verbatim>\<open>crypto.randomUUID()\<close> and \<open>today\<close> for \<^verbatim>\<open>new Date()\<close>, whose ISO date is
  the day it falls in.
\<close>

definition newInvoiceOf :: "string \<Rightarrow> instant \<Rightarrow> BillingState \<Rightarrow> Invoice" where
  "newInvoiceOf uuid today b =
     \<lparr>id_invoice = uuid, type_invoice = invoiceType b, date = toISODate today,
      items = currentItems b,
      totalAmount = foldl (\<lambda>sum item. sum + total item) 0 (currentItems b),
      notes_invoice = None\<rparr>"

text \<open>
  \<^verbatim>\<open>handleSaveInvoice\<close> returns early, with no effect, on an empty item list: this is
  the handler's rejection (the source has no exception for it). Otherwise it hands the
  invoice to \<^verbatim>\<open>onAddInvoice\<close> (which is \<^verbatim>\<open>handleAddInvoice\<close>), clears the form and
  ends with the \<^verbatim>\<open>alert\<close> that the movement was registered. The result names the path
  taken and gives the state after it.
\<close>

datatype SaveOutcome = EarlyReturn | Saved

definition handleSaveInvoice ::
  "string \<Rightarrow> instant \<Rightarrow> AppState \<times> BillingState \<Rightarrow>
     SaveOutcome \<times> AppState \<times> BillingState" where
  "handleSaveInvoice uuid today sb =
     (case sb of (s, b) \<Rightarrow>
        if length (currentItems b) = 0 then (EarlyReturn, s, b)
        else (Saved, handleAddInvoice (newInvoiceOf uuid today b) s,
              b\<lparr>currentItems := []\<rparr>))"

text \<open>
  The events of the billing view while it is shown: the two type buttons (which also
  empty the item list), the product selector, the quantity field, and the add, remove
  and confirm buttons. The view starts from \<open>initialForm\<close> each time it is shown, and the
  catalog it reads is the one of \<^verbatim>\<open>App\<close>, which only \<^verbatim>\<open>handleAddInvoice\<close> changes
  meanwhile.
\<close>

definition initialForm :: BillingState where
  "initialForm =
     \<lparr>invoiceType = SALE, selectedProduct = '''', currentQty = 1, currentItems = []\<rparr>"

datatype BillingEvent =
  SelectType InvoiceType
| SelectProduct string
| EnterQty int
| ClickAdd
| ClickRemove nat
| ClickSave string instant

fun billingStep :: "BillingEvent \<Rightarrow> AppState \<times> BillingState \<Rightarrow> AppState \<times> BillingState" where
  "billingStep (SelectType t) (s, b) = (s, b\<lparr>invoiceType := t, currentItems := []\<rparr>)"
| "billingStep (SelectProduct i) (s, b) = (s, b\<lparr>selectedProduct := i\<rparr>)"
| "billingStep (EnterQty q) (s, b) = (s, b\<lparr>currentQty := q\<rparr>)"
| "billingStep ClickAdd (s, b) = (s, handleAddItem (products s) b)"
| "billingStep (ClickRemove index) (s, b) = (s, handleRemoveItem index b)"
| "billingStep (ClickSave uuid today) (s, b) = snd (handleSaveInvoice uuid today (s, b))"

definition runBilling :: "BillingEvent list \<Rightarrow> AppState \<Rightarrow> AppState \<times> BillingState" where
  "runBilling evs s = foldl (\<lambda>sb ev. billingStep ev sb) (s, initialForm) evs"

section \<open>Financial figures (Dashboard component)\<close>

definition totalSales :: "Invoice list \<Rightarrow> int" where
  "totalSales invs =
     foldl (\<lambda>acc i. acc + totalAmount i) 0 (filter (\<lambda>i. type_invoice i = SALE) invs)"

definition totalPurchases :: "Invoice list \<Rightarrow> int" where
  "totalPurchases invs =
     foldl (\<lambda>acc i. acc + totalAmount i) 0 (filter (\<lambda>i. type_invoice i = PURCHASE) invs)"

definition netProfit :: "Invoice list \<Rightarrow> int" where
  "netProfit invs = totalSales invs - totalPurchases invs"

section \<open>Shared pieces of the two chart builders\<close>

datatype TimeRange = WEEK | MONTH | YEAR

definition rangeDays :: "TimeRange \<Rightarrow> int" where
  "rangeDays timeRange = (if timeRange = WEEK then 7 else if timeRange = MONTH then 30 else 365)"

text \<open>
  \<^verbatim>\<open>cutoffDate = new Date(today); cutoffDate.setDate(today.getDate() - rangeDays)\<close>:
  the same local time of day, \<open>rangeDays\<close> days earlier on the local calendar.
\<close>

definition cutoffDate :: "LocalTZA \<Rightarrow> instant \<Rightarrow> TimeRange \<Rightarrow> instant" where
  "cutoffDate tza today timeRange = setDateBy tza today (- rangeDays timeRange)"

text \<open>
  A JavaScript \<^verbatim>\<open>Map\<close> as an association list in insertion order: \<^verbatim>\<open>set\<close> on a
  key that is present keeps its place, a new key goes to the end.
\<close>

fun map_set :: "('k \<times> 'v) list \<Rightarrow> 'k \<Rightarrow> 'v \<Rightarrow> ('k \<times> 'v) list" where
  "map_set [] k v = [(k, v)]"
| "map_set ((k', v') # m) k v = (if k' = k then (k, v) # m else (k', v') # map_set m k v)"

definition map_get :: "('k \<times> 'v) list \<Rightarrow> 'k \<Rightarrow> 'v option" where
  "map_get m k = map_of m k"

text \<open>A nullable number used as an operand of \<^verbatim>\<open>+\<close>: \<^verbatim>\<open>null\<close> counts as 0.\<close>

definition numOf :: "int option \<Rightarrow> int" where
  "numOf v = (case v of None \<Rightarrow> 0 | Some n \<Rightarrow> n)"

text \<open>\<^verbatim>\<open>Math.round\<close>: the nearest integer, a half rounded up.\<close>

definition Math_round :: "real \<Rightarrow> int" where
  "Math_round x = \<lfloor>x + 1 / 2\<rfloor>"

section \<open>The financial chart (generateChartData of Dashboard)\<close>

record ChartPoint =
  date_fin :: isodate
  sales :: "int option"
  purchases :: "int option"
  estimated_fin :: "int option"

text \<open>The \<^verbatim>\<open>forEach\<close> body: the per-day pair (sales, purchases) of the map.\<close>

definition addToDay :: "(isodate \<times> int \<times> int) list \<Rightarrow> Invoice \<Rightarrow> (isodate \<times> int \<times> int) list" where
  "addToDay dataMap iv =
     (let current = (case map_get dataMap (date iv) of None \<Rightarrow> (0, 0) | Some c \<Rightarrow> c)
      in map_set dataMap (date iv)
           (if type_invoice iv = SALE then (fst current + totalAmount iv, snd current)
            else (fst current, snd current + totalAmount iv)))"

definition historyChart :: "Invoice list \<Rightarrow> ChartPoint list" where
  "historyChart invs =
     (let sortedInvoices = sort_key (\<lambda>i. getTime (date i)) invs;
          dataMap = foldl addToDay [] sortedInvoices
      in sort_key (\<lambda>p. getTime (date_fin p))
           (map (\<lambda>(d, sp). \<lparr>date_fin = d, sales = Some (fst sp), purchases = Some (snd sp),
                   estimated_fin = None\<rparr>) dataMap))"

definition filterChart ::
  "LocalTZA \<Rightarrow> instant \<Rightarrow> TimeRange \<Rightarrow> ChartPoint list \<Rightarrow> ChartPoint list" where
  "filterChart tza today timeRange chartData =
     filter (\<lambda>d. getTime (date_fin d) \<ge> cutoffDate tza today timeRange) chartData"

text \<open>
  The projection block; \<open>random i\<close> is the value \<^verbatim>\<open>Math.random()\<close> returns in
  iteration \<open>i\<close> of the loop.
\<close>

definition projectChart ::
  "LocalTZA \<Rightarrow> (nat \<Rightarrow> real) \<Rightarrow> ChartPoint list \<Rightarrow> ChartPoint list" where
  "projectChart tza random chartData =
     (if length chartData > 2 then
        (let lastPoints = drop (length chartData - 5) chartData;
             avgSales = real_of_int (foldl (\<lambda>sum p. sum + numOf (sales p)) 0 lastPoints)
                          / real (length lastPoints);
             lastRealData = chartData ! (length chartData - 1);
             lastDate = getTime (date_fin lastRealData)
         in chartData[length chartData - 1 := lastRealData\<lparr>estimated_fin := sales lastRealData\<rparr>]
            @ map (\<lambda>i. let nextDate = setDateBy tza lastDate (int i);
                          trendFactor = 1 + (random i * 0.2 - 0.1);
                          projectedValue = Math_round (avgSales * trendFactor)
                      in \<lparr>date_fin = toISODate nextDate, sales = None, purchases = None,
                          estimated_fin = Some projectedValue\<rparr>) [1..<6])
      else chartData)"

definition generateChartData_Dashboard ::
  "LocalTZA \<Rightarrow> (nat \<Rightarrow> real) \<Rightarrow> instant \<Rightarrow> TimeRange \<Rightarrow> Invoice list \<Rightarrow>
     ChartPoint list" where
  "generateChartData_Dashboard tza random today timeRange invs =
     projectChart tza random (filterChart tza today timeRange (historyChart invs))"

section \<open>The per-product chart (generateChartData of ProductAnalytics)\<close>

record ProductPoint =
  date_prod :: isodate
  real_prod :: "int option"
  estimated_prod :: "int option"

definition productInvoices :: "string \<Rightarrow> Invoice list \<Rightarrow> Invoice list" where
  "productInvoices selectedProductId invs =
     filter (\<lambda>iv. list_ex (\<lambda>item. productId item = selectedProductId) (items iv)) invs"

definition addToRaw :: "string \<Rightarrow> (isodate \<times> int) list \<Rightarrow> Invoice \<Rightarrow> (isodate \<times> int) list" where
  "addToRaw selectedProductId rawMap iv =
     (if type_invoice iv = SALE then
        (let qty = (case find (\<lambda>i. productId i = selectedProductId) (items iv) of
                      None \<Rightarrow> 0 | Some i \<Rightarrow> quantity i)
         in map_set rawMap (date iv)
              ((case map_get rawMap (date iv) of None \<Rightarrow> 0 | Some q \<Rightarrow> q) + qty))
      else rawMap)"

definition historyProduct :: "string \<Rightarrow> Invoice list \<Rightarrow> ProductPoint list" where
  "historyProduct selectedProductId invs =
     (let rawMap = foldl (addToRaw selectedProductId) [] (productInvoices selectedProductId invs)
      in sort_key (\<lambda>p. getTime (date_prod p))
           (map (\<lambda>(d, qty). \<lparr>date_prod = d, real_prod = Some qty, estimated_prod = None\<rparr>)
              rawMap))"

definition filterProduct ::
  "LocalTZA \<Rightarrow> instant \<Rightarrow> TimeRange \<Rightarrow> ProductPoint list \<Rightarrow> ProductPoint list" where
  "filterProduct tza today timeRange data =
     filter (\<lambda>d. getTime (date_prod d) \<ge> cutoffDate tza today timeRange) data"

definition projectProduct ::
  "LocalTZA \<Rightarrow> (nat \<Rightarrow> real) \<Rightarrow> ProductPoint list \<Rightarrow> ProductPoint list" where
  "projectProduct tza random data =
     (if length data > 1 then
        (let avgSales = real_of_int (foldl (\<lambda>acc curr. acc + numOf (real_prod curr)) 0 data)
                          / real (length data);
             lastItem = data ! (length data - 1);
             lastDate = getTime (date_prod lastItem)
         in data[length data - 1 := lastItem\<lparr>estimated_prod := real_prod lastItem\<rparr>]
            @ map (\<lambda>i. let nextDate = setDateBy tza lastDate (int i);
                          variance = random i * 2 - 1;
                          nextVal = max 0 (Math_round (avgSales + variance))
                      in \<lparr>date_prod = toISODate nextDate, real_prod = None,
                          estimated_prod = Some nextVal\<rparr>) [1..<5])
      else data)"

definition generateChartData_ProductAnalytics ::
  "LocalTZA \<Rightarrow> (nat \<Rightarrow> real) \<Rightarrow> instant \<Rightarrow> TimeRange \<Rightarrow> string \<Rightarrow> Invoice list \<Rightarrow>
     ProductPoint list" where
  "generateChartData_ProductAnalytics tza random today timeRange selectedProductId invs =
     projectProduct tza random
       (filterProduct tza today timeRange (historyProduct selectedProductId invs))"

section \<open>The seed catalog (constants.ts)\<close>

text \<open>
  The dates of \<^verbatim>\<open>lastRestocked\<close> are the day numbers of 2023-10-20, 2023-10-22,
  2023-10-15, 2023-10-10, 2023-10-24, 2023-09-30, 2023-10-18 and 2023-10-21; the two
  accented letters of the categories are written as their UTF-8 bytes.
\<close>

definition INITIAL_PRODUCTS :: "Product list" where
  "INITIAL_PRODUCTS =
     [
      \<lparr>id_product = ''1'', name = ''Leche Entera 1L'', category = ''L'' @ [CHR 0xC3, CHR 0xA1] @ ''cteos'',
       currentStock = 12, minStock = 20, price = 1200, cost = 800, lastRestocked = 19650\<rparr>,
      \<lparr>id_product = ''2'', name = ''Pan de Molde Blanco'', category = ''Panader'' @ [CHR 0xC3, CHR 0xAD] @ ''a'',
       currentStock = 5, minStock = 15, price = 2500, cost = 1800, lastRestocked = 19652\<rparr>,
      \<lparr>id_product = ''3'', name = ''Bebida Cola 3L'', category = ''Bebidas'',
       currentStock = 45, minStock = 30, price = 3200, cost = 2100, lastRestocked = 19645\<rparr>,
      \<lparr>id_product = ''4'', name = ''Arroz Grado 2'', category = ''Despensa'',
       currentStock = 8, minStock = 25, price = 1100, cost = 750, lastRestocked = 19640\<rparr>,
      \<lparr>id_product = ''5'', name = ''Yogurt Batido Fresa'', category = ''L'' @ [CHR 0xC3, CHR 0xA1] @ ''cteos'',
       currentStock = 30, minStock = 20, price = 450, cost = 280, lastRestocked = 19654\<rparr>,
      \<lparr>id_product = ''6'', name = ''Aceite Maravilla 1L'', category = ''Despensa'',
       currentStock = 3, minStock = 10, price = 2800, cost = 1900, lastRestocked = 19630\<rparr>,
      \<lparr>id_product = ''7'', name = ''Cerveza Lager 6pack'', category = ''Alcohol'',
       currentStock = 22, minStock = 15, price = 5990, cost = 3500, lastRestocked = 19648\<rparr>,
      \<lparr>id_product = ''8'', name = ''Papas Fritas 250g'', category = ''Snacks'',
       currentStock = 14, minStock = 20, price = 2100, cost = 1200, lastRestocked = 19651\<rparr>]"

section \<open>Notions used in the statements\<close>


text \<open>The mean of the spec: the sum of the values over their number.\<close>

definition meanOf :: "int list \<Rightarrow> real" where
  "meanOf xs = real_of_int (sum_list xs) / real (length xs)"

section \<open>Example data\<close>

text \<open>
  A sale of 5 and a purchase of 30 units of the first seed product, dated 2026-11-02
  (day 20759); a sale that names the first seed product in two line items; event
  sequences of the billing view over the seed catalog; short sale histories of the days
  before 2026-11-02, read at noon (or at midnight, the start) of that day with every
  random draw equal to one half.

  Two time zones: UTC itself, and the offsets of America/Santiago in 2026, which are
  3 hours behind UTC until 2026-04-05T03:00Z, 4 hours behind until 2026-09-06T04:00Z and
  3 hours behind after it; a local time that occurs twice or not at all is read with
  the offset before the change. With them, the instants 2026-04-08T00:30Z,
  2026-09-08T23:30Z and 2026-09-04T15:00Z, and sales on 2026-09-02, 09-03 and 09-04
  (days 20698 to 20700).
\<close>

definition exampleSale :: Invoice where
  "exampleSale =
     \<lparr>id_invoice = ''s1'', type_invoice = SALE, date = 20759,
      items = [\<lparr>productId = ''1'', productName = ''Leche Entera 1L'', quantity = 5,
                unitPrice = 1200, total = 6000\<rparr>],
      totalAmount = 6000, notes_invoice = None\<rparr>"

definition examplePurchase :: Invoice where
  "examplePurchase =
     \<lparr>id_invoice = ''p1'', type_invoice = PURCHASE, date = 20759,
      items = [\<lparr>productId = ''1'', productName = ''Leche Entera 1L'', quantity = 30,
                unitPrice = 800, total = 24000\<rparr>],
      totalAmount = 24000, notes_invoice = None\<rparr>"

definition seedState :: AppState where
  "seedState = \<lparr>products = INITIAL_PRODUCTS, invoices = []\<rparr>"

definition exampleDuplicates :: Invoice where
  "exampleDuplicates =
     \<lparr>id_invoice = ''d1'', type_invoice = SALE, date = 20759,
      items = [\<lparr>productId = ''2'', productName = ''Pan de Molde Blanco'', quantity = 1,
                unitPrice = 2500, total = 2500\<rparr>,
               \<lparr>productId = ''1'', productName = ''Leche Entera 1L'', quantity = 2,
                unitPrice = 1200, total = 2400\<rparr>,
               \<lparr>productId = ''1'', productName = ''Leche Entera 1L'', quantity = 4,
                unitPrice = 1200, total = 4800\<rparr>],
      totalAmount = 9700, notes_invoice = None\<rparr>"

definition negativePurchaseEvents :: "BillingEvent list" where
  "negativePurchaseEvents =
     [SelectType PURCHASE, SelectProduct ''1'', EnterQty (- 100), ClickAdd,
      ClickSave ''u1'' 1793620800000]"





definition boundaryPoint :: ChartPoint where
  "boundaryPoint = \<lparr>date_fin = 20752, sales = Some 6000, purchases = Some 0, estimated_fin = None\<rparr>"

definition milkSale :: "isodate \<Rightarrow> int \<Rightarrow> Invoice" where
  "milkSale d q =
     \<lparr>id_invoice = ''m'', type_invoice = SALE, date = d,
      items = [\<lparr>productId = ''1'', productName = ''Leche Entera 1L'', quantity = q,
                unitPrice = 1200, total = q * 1200\<rparr>],
      totalAmount = q * 1200, notes_invoice = None\<rparr>"

definition threeDays :: "Invoice list" where
  "threeDays = [milkSale 20757 3, milkSale 20755 2, milkSale 20758 1, milkSale 20755 1]"

definition twoDays :: "Invoice list" where
  "twoDays = [milkSale 20757 3, milkSale 20755 2, milkSale 20755 1]"

definition oneDay :: "Invoice list" where
  "oneDay = [milkSale 20757 3]"


definition noon :: instant where
  "noon = 1793620800000"

definition midnight :: instant where
  "midnight = 1793577600000"

definition evenDraws :: "nat \<Rightarrow> real" where
  "evenDraws i = 1 / 2"

definition utcZone :: LocalTZA where
  "utcZone t isUTC = 0"

definition santiago2026 :: LocalTZA where
  "santiago2026 t isUTC =
     (if isUTC
      then (if t < 1775358000000 then - 10800000
            else if t < 1788667200000 then - 14400000 else - 10800000)
      else (if t < 1775347200000 then - 10800000
            else if t < 1788656400000 then - 14400000 else - 10800000))"

definition aprilNight :: instant where
  "aprilNight = 1775608200000"

definition septemberNight :: instant where
  "septemberNight = 1788910200000"



section \<open>Stock adjustment of a recorded transaction\<close>

lemma find_distinct_key:
  "distinct (map f xs) \<Longrightarrow> x \<in> set xs \<Longrightarrow> find (\<lambda>i. f i = f x) xs = Some x"
proof (induction xs)
  case Nil
  then show ?case by simp
next
  case (Cons y ys)
  show ?case
  proof (cases "y = x")
    case True
    then show ?thesis by simp
  next
    case False
    with Cons.prems have mem: "x \<in> set ys" by simp
    from Cons.prems mem have "f y \<noteq> f x" by force
    with Cons mem show ?thesis by simp
  qed
qed

lemma products_handleAddInvoice_nth:
  "k < length (products s) \<Longrightarrow>
   products (handleAddInvoice newInvoice s) ! k = updateStock newInvoice (products s ! k)"
  by (simp add: handleAddInvoice_def)

text \<open>
  C1. When the line items of a recorded transaction name pairwise different products, a
  product named by a line item has, after a SALE, the stock \<open>max 0 (before - quantity)\<close>,
  and after a PURCHASE the stock \<open>before + quantity\<close> and the transaction's date as its
  \<open>lastRestocked\<close>.
\<close>

theorem handleAddInvoice_stock_rule:
  assumes "distinct (map productId (items newInvoice))"
    and "k < length (products s)"
    and "it \<in> set (items newInvoice)"
    and "productId it = id_product (products s ! k)"
  shows "(type_invoice newInvoice = SALE \<longrightarrow>
            currentStock (products (handleAddInvoice newInvoice s) ! k) =
              max 0 (currentStock (products s ! k) - quantity it)) \<and>
         (type_invoice newInvoice = PURCHASE \<longrightarrow>
            currentStock (products (handleAddInvoice newInvoice s) ! k) =
              currentStock (products s ! k) + quantity it \<and>
            lastRestocked (products (handleAddInvoice newInvoice s) ! k) = date newInvoice)"
proof -
  from assms(1,3) have "find (\<lambda>i. productId i = productId it) (items newInvoice) = Some it"
    by (rule find_distinct_key)
  with assms(4)
  have "find (\<lambda>i. productId i = id_product (products s ! k)) (items newInvoice) = Some it"
    by simp
  with assms(2) show ?thesis
    by (simp add: products_handleAddInvoice_nth updateStock_def)
qed

theorem handleAddInvoice_stock_rule_witness:
  "distinct (map productId (items exampleSale)) \<and>
   distinct (map productId (items examplePurchase)) \<and>
   productId (hd (items exampleSale)) = id_product (products seedState ! 0) \<and>
   currentStock (products (handleAddInvoice exampleSale seedState) ! 0) = 7 \<and>
   currentStock (products (handleAddInvoice examplePurchase seedState) ! 0) = 42 \<and>
   lastRestocked (products (handleAddInvoice examplePurchase seedState) ! 0) = 20759"
  using handleAddInvoice_stock_rule [of exampleSale 0 seedState "hd (items exampleSale)"]
    handleAddInvoice_stock_rule [of examplePurchase 0 seedState "hd (items examplePurchase)"]
  by (simp add: exampleSale_def examplePurchase_def seedState_def INITIAL_PRODUCTS_def)

lemma find_first_match:
  "\<forall>i\<in>set pre. \<not> P i \<Longrightarrow> P x \<Longrightarrow> find P (pre @ x # rest) = Some x"
  by (induction pre) simp_all

text \<open>
  C9. When several line items of an invoice name the same product, the first of them
  alone decides the product's new stock (clamped decrement for a SALE, increment for a
  PURCHASE): the items after it, duplicates included, do not occur in the result.
\<close>

theorem handleAddInvoice_first_item_only:
  assumes "k < length (products s)"
    and "items iv = pre @ it # rest"
    and "\<forall>i\<in>set pre. productId i \<noteq> id_product (products s ! k)"
    and "productId it = id_product (products s ! k)"
  shows "products (handleAddInvoice iv s) ! k =
           (if type_invoice iv = SALE
            then (products s ! k)\<lparr>currentStock := max 0 (currentStock (products s ! k) - quantity it)\<rparr>
            else (products s ! k)\<lparr>currentStock := currentStock (products s ! k) + quantity it,
                                  lastRestocked := date iv\<rparr>)"
proof -
  from assms(3,4)
  have "find (\<lambda>i. productId i = id_product (products s ! k)) (pre @ it # rest) = Some it"
    by (intro find_first_match) simp_all
  with assms(1,2) show ?thesis
    by (simp add: products_handleAddInvoice_nth updateStock_def)
qed

theorem handleAddInvoice_first_item_only_witness:
  "map productId (items exampleDuplicates) = [''2'', ''1'', ''1''] \<and>
   map quantity (items exampleDuplicates) = [1, 2, 4] \<and>
   currentStock (products (handleAddInvoice exampleDuplicates seedState) ! 0) = 10"
  using handleAddInvoice_first_item_only [of 0 seedState exampleDuplicates
      "[items exampleDuplicates ! 0]" "items exampleDuplicates ! 1" "[items exampleDuplicates ! 2]"]
  by (simp add: exampleDuplicates_def seedState_def INITIAL_PRODUCTS_def)

lemma updateStock_other:
  "id_product p \<notin> productId ` set (items iv) \<Longrightarrow> updateStock iv p = p"
proof -
  assume "id_product p \<notin> productId ` set (items iv)"
  then have "find (\<lambda>i. productId i = id_product p) (items iv) = None"
    by (force simp: find_None_iff image_iff)
  then show ?thesis by (simp add: updateStock_def)
qed

text \<open>
  C10. Recording an invoice appends it to the history, which is otherwise unchanged, and
  leaves every product whose id is not the \<open>productId\<close> of one of its line items
  unchanged in all fields.
\<close>

theorem handleAddInvoice_frame:
  "invoices (handleAddInvoice iv s) = invoices s @ [iv] \<and>
   length (products (handleAddInvoice iv s)) = length (products s) \<and>
   (\<forall>k<length (products s).
      id_product (products s ! k) \<notin> productId ` set (items iv) \<longrightarrow>
      products (handleAddInvoice iv s) ! k = products s ! k)"
  by (simp add: handleAddInvoice_def updateStock_other)

theorem handleAddInvoice_frame_witness:
  "invoices (handleAddInvoice exampleSale seedState) = [exampleSale] \<and>
   products (handleAddInvoice exampleSale seedState) ! 1 = INITIAL_PRODUCTS ! 1"
  using handleAddInvoice_frame [of exampleSale seedState]
  by (simp add: exampleSale_def seedState_def INITIAL_PRODUCTS_def)

section \<open>Financial figures\<close>

lemma foldl_add_sum_list:
  "foldl (\<lambda>acc i. acc + f i) a xs = (a::int) + sum_list (map f xs)"
  by (induction xs arbitrary: a) simp_all

text \<open>
  C3. In every state, \<open>netProfit\<close> is \<open>totalSales\<close> minus \<open>totalPurchases\<close>, where
  \<open>totalSales\<close> is the sum of \<open>totalAmount\<close> over the invoices of type SALE and
  \<open>totalPurchases\<close> the sum over those of type PURCHASE.
\<close>

theorem netProfit_sales_minus_purchases:
  "netProfit (invoices s) =
     (\<Sum>i\<leftarrow>filter (\<lambda>i. type_invoice i = SALE) (invoices s). totalAmount i) -
     (\<Sum>i\<leftarrow>filter (\<lambda>i. type_invoice i = PURCHASE) (invoices s). totalAmount i) \<and>
   netProfit (invoices s) = totalSales (invoices s) - totalPurchases (invoices s) \<and>
   totalSales (invoices s) =
     (\<Sum>i\<leftarrow>filter (\<lambda>i. type_invoice i = SALE) (invoices s). totalAmount i) \<and>
   totalPurchases (invoices s) =
     (\<Sum>i\<leftarrow>filter (\<lambda>i. type_invoice i = PURCHASE) (invoices s). totalAmount i)"
  by (simp add: netProfit_def totalSales_def totalPurchases_def foldl_add_sum_list)

section \<open>Deleting a product\<close>

text \<open>
  C8. Deleting a product leaves the transaction history as it is: a transaction committed
  before the deletion, with the \<open>productName\<close> and \<open>unitPrice\<close> of its line items, is
  exactly as at commit time.
\<close>

theorem handleDeleteProduct_keeps_history:
  "invoices (handleDeleteProduct i s) = invoices s \<and>
   invoices (handleDeleteProduct i (handleAddInvoice iv s)) = invoices s @ [iv]"
  by (simp add: handleDeleteProduct_def handleAddInvoice_def)

section \<open>Saving an invoice from the billing form\<close>









section \<open>Stock levels\<close>

text \<open>
  C7. The claim fails on the code: in the billing view over the seed catalog, choosing
  the purchase type, the first product and the quantity -100, then adding the item and
  confirming, records a PURCHASE that takes the stock of the first product from 12 to
  -88. The quantity field declares a minimum of 1 but nothing enforces it, and the
  PURCHASE branch of \<open>handleAddInvoice\<close> adds the quantity without the clamp at 0 that the
  SALE branch has.
\<close>

theorem negative_purchase_stock:
  "map (\<lambda>iv. (type_invoice iv, map quantity (items iv)))
     (invoices (fst (runBilling negativePurchaseEvents seedState))) = [(PURCHASE, [- 100])] \<and>
   currentStock (products seedState ! 0) = 12 \<and>
   currentStock (products (fst (runBilling negativePurchaseEvents seedState)) ! 0) = - 88"
  by (simp add: runBilling_def negativePurchaseEvents_def seedState_def initialForm_def
      handleAddItem_def handleSaveInvoice_def newInvoiceOf_def handleAddInvoice_def
      updateStock_def INITIAL_PRODUCTS_def)

section \<open>The window filter\<close>

lemma cutoff_by_days:
  "getTime d \<ge> c \<longleftrightarrow>
     (if c mod 86400000 = 0 then c div 86400000 \<le> d else c div 86400000 < d)"
proof -
  define q where "q = c div 86400000"
  define r where "r = c mod 86400000"
  have c: "c = q * 86400000 + r" and r: "0 \<le> r" "r < 86400000"
    by (simp_all add: q_def r_def)
  show ?thesis
    unfolding getTime_def q_def [symmetric] r_def [symmetric]
    using c r by auto
qed

lemma cutoffDate_fixed_offset:
  "tza (LocalTime tza today - rangeDays timeRange * 86400000) False = tza today True \<Longrightarrow>
   cutoffDate tza today timeRange = today - rangeDays timeRange * 86400000"
  by (simp add: cutoffDate_def setDateBy_def UTC_of_def LocalTime_def)

lemma cutoff_by_days_fixed_offset:
  assumes "tza (LocalTime tza today - rangeDays timeRange * 86400000) False = tza today True"
  shows "getTime d \<ge> cutoffDate tza today timeRange \<longleftrightarrow>
     (if today mod 86400000 = 0 then toISODate today - rangeDays timeRange \<le> d
      else toISODate today - rangeDays timeRange < d)"
proof -
  have "(today - rangeDays timeRange * 86400000) mod 86400000 = today mod 86400000"
    by (simp add: mod_diff_eq [symmetric])
  moreover have "(today - rangeDays timeRange * 86400000) div 86400000 =
      today div 86400000 - rangeDays timeRange"
    using div_mult_self1 [of 86400000 today "- rangeDays timeRange"] by (simp add: algebra_simps)
  ultimately show ?thesis
    by (simp add: cutoffDate_fixed_offset [OF assms] cutoff_by_days toISODate_def)
qed

text \<open>
  C6, as amended. With \<open>windowDays\<close> 7, 30 or 365 for WEEK, MONTH or YEAR, the window filter
  of both charts keeps exactly the entries whose date, at midnight UTC, is not before the
  cutoff: the current instant moved back \<open>windowDays\<close> days on the local calendar, at the
  same local time of day. Where the local offset from UTC at the cutoff is the one at the
  current instant (no change of offset inside the window), the cutoff is \<open>windowDays\<close>
  days of 24 hours before the current instant and, with \<open>today\<close> the UTC date of the
  current instant, the entries kept are those with \<open>today - windowDays < date\<close>, the
  boundary date excluded; the boundary date is kept too only when the current instant is
  a midnight UTC.
\<close>

theorem window_filter_by_days:
  "filterChart tza today timeRange chartData =
     filter (\<lambda>p. if cutoffDate tza today timeRange mod 86400000 = 0
                 then toISODate (cutoffDate tza today timeRange) \<le> date_fin p
                 else toISODate (cutoffDate tza today timeRange) < date_fin p) chartData \<and>
   filterProduct tza today timeRange data =
     filter (\<lambda>p. if cutoffDate tza today timeRange mod 86400000 = 0
                 then toISODate (cutoffDate tza today timeRange) \<le> date_prod p
                 else toISODate (cutoffDate tza today timeRange) < date_prod p) data \<and>
   cutoffDate tza today timeRange =
     UTC_of tza (LocalTime tza today - rangeDays timeRange * 86400000) \<and>
   (tza (LocalTime tza today - rangeDays timeRange * 86400000) False = tza today True \<longrightarrow>
      cutoffDate tza today timeRange = today - rangeDays timeRange * 86400000 \<and>
      filterChart tza today timeRange chartData =
        filter (\<lambda>p. if today mod 86400000 = 0
                    then toISODate today - rangeDays timeRange \<le> date_fin p
                    else toISODate today - rangeDays timeRange < date_fin p) chartData \<and>
      filterProduct tza today timeRange data =
        filter (\<lambda>p. if today mod 86400000 = 0
                    then toISODate today - rangeDays timeRange \<le> date_prod p
                    else toISODate today - rangeDays timeRange < date_prod p) data) \<and>
   rangeDays timeRange = (case timeRange of WEEK \<Rightarrow> 7 | MONTH \<Rightarrow> 30 | YEAR \<Rightarrow> 365)"
proof -
  have general: "filterChart tza today timeRange chartData =
     filter (\<lambda>p. if cutoffDate tza today timeRange mod 86400000 = 0
                 then toISODate (cutoffDate tza today timeRange) \<le> date_fin p
                 else toISODate (cutoffDate tza today timeRange) < date_fin p) chartData"
    "filterProduct tza today timeRange data =
     filter (\<lambda>p. if cutoffDate tza today timeRange mod 86400000 = 0
                 then toISODate (cutoffDate tza today timeRange) \<le> date_prod p
                 else toISODate (cutoffDate tza today timeRange) < date_prod p) data"
    by (simp_all add: filterChart_def filterProduct_def cutoff_by_days toISODate_def)
  have cutoff: "cutoffDate tza today timeRange =
      UTC_of tza (LocalTime tza today - rangeDays timeRange * 86400000)"
    by (simp add: cutoffDate_def setDateBy_def)
  have fixed: "cutoffDate tza today timeRange = today - rangeDays timeRange * 86400000 \<and>
      filterChart tza today timeRange chartData =
        filter (\<lambda>p. if today mod 86400000 = 0
                    then toISODate today - rangeDays timeRange \<le> date_fin p
                    else toISODate today - rangeDays timeRange < date_fin p) chartData \<and>
      filterProduct tza today timeRange data =
        filter (\<lambda>p. if today mod 86400000 = 0
                    then toISODate today - rangeDays timeRange \<le> date_prod p
                    else toISODate today - rangeDays timeRange < date_prod p) data"
    if same: "tza (LocalTime tza today - rangeDays timeRange * 86400000) False = tza today True"
  proof (intro conjI)
    show "cutoffDate tza today timeRange = today - rangeDays timeRange * 86400000"
      by (rule cutoffDate_fixed_offset [OF same])
    show "filterChart tza today timeRange chartData =
        filter (\<lambda>p. if today mod 86400000 = 0
                    then toISODate today - rangeDays timeRange \<le> date_fin p
                    else toISODate today - rangeDays timeRange < date_fin p) chartData"
      by (simp add: filterChart_def cutoff_by_days_fixed_offset [OF same])
    show "filterProduct tza today timeRange data =
        filter (\<lambda>p. if today mod 86400000 = 0
                    then toISODate today - rangeDays timeRange \<le> date_prod p
                    else toISODate today - rangeDays timeRange < date_prod p) data"
      by (simp add: filterProduct_def cutoff_by_days_fixed_offset [OF same])
  qed
  have days: "rangeDays timeRange = (case timeRange of WEEK \<Rightarrow> 7 | MONTH \<Rightarrow> 30 | YEAR \<Rightarrow> 365)"
    by (simp add: rangeDays_def split: TimeRange.split)
  from general cutoff fixed days show ?thesis by blast
qed

theorem window_filter_by_days_witness:
  "utcZone (LocalTime utcZone noon - rangeDays WEEK * 86400000) False = utcZone noon True \<and>
   filterChart utcZone noon WEEK [boundaryPoint, boundaryPoint\<lparr>date_fin := 20753\<rparr>] =
     [boundaryPoint\<lparr>date_fin := 20753\<rparr>] \<and>
   filterChart utcZone midnight WEEK [boundaryPoint, boundaryPoint\<lparr>date_fin := 20751\<rparr>] =
     [boundaryPoint] \<and>
   cutoffDate santiago2026 aprilNight WEEK = 1774999800000 \<and>
   filterChart santiago2026 aprilNight WEEK
     [boundaryPoint\<lparr>date_fin := 20543\<rparr>, boundaryPoint\<lparr>date_fin := 20544\<rparr>] =
     [boundaryPoint\<lparr>date_fin := 20544\<rparr>] \<and>
   cutoffDate santiago2026 septemberNight WEEK = 1788309000000 \<and>
   filterChart santiago2026 septemberNight WEEK
     [boundaryPoint\<lparr>date_fin := 20698\<rparr>, boundaryPoint\<lparr>date_fin := 20699\<rparr>] =
     [boundaryPoint\<lparr>date_fin := 20699\<rparr>]"
proof -
  have same: "utcZone (LocalTime utcZone t - rangeDays WEEK * 86400000) False = utcZone t True"
    for t
    by (simp add: utcZone_def)
  note fixed = window_filter_by_days [THEN conjunct2, THEN conjunct2, THEN conjunct2,
      THEN conjunct1, THEN mp, OF same, THEN conjunct2, THEN conjunct1]
  note general = window_filter_by_days [THEN conjunct1]
  have atNoon:
    "filterChart utcZone noon WEEK [boundaryPoint, boundaryPoint\<lparr>date_fin := 20753\<rparr>] =
       [boundaryPoint\<lparr>date_fin := 20753\<rparr>]"
    unfolding fixed
    by (simp add: boundaryPoint_def rangeDays_def noon_def toISODate_def)
  have atMidnight:
    "filterChart utcZone midnight WEEK [boundaryPoint, boundaryPoint\<lparr>date_fin := 20751\<rparr>] =
       [boundaryPoint]"
    unfolding fixed
    by (simp add: boundaryPoint_def rangeDays_def midnight_def toISODate_def)
  have april: "cutoffDate santiago2026 aprilNight WEEK = 1774999800000"
    by (simp add: cutoffDate_def setDateBy_def UTC_of_def LocalTime_def rangeDays_def
        santiago2026_def aprilNight_def)
  have september: "cutoffDate santiago2026 septemberNight WEEK = 1788309000000"
    by (simp add: cutoffDate_def setDateBy_def UTC_of_def LocalTime_def rangeDays_def
        santiago2026_def septemberNight_def)
  have inApril:
    "filterChart santiago2026 aprilNight WEEK
       [boundaryPoint\<lparr>date_fin := 20543\<rparr>, boundaryPoint\<lparr>date_fin := 20544\<rparr>] =
       [boundaryPoint\<lparr>date_fin := 20544\<rparr>]"
    unfolding general april
    by (simp add: boundaryPoint_def toISODate_def)
  have inSeptember:
    "filterChart santiago2026 septemberNight WEEK
       [boundaryPoint\<lparr>date_fin := 20698\<rparr>, boundaryPoint\<lparr>date_fin := 20699\<rparr>] =
       [boundaryPoint\<lparr>date_fin := 20699\<rparr>]"
    unfolding general september
    by (simp add: boundaryPoint_def toISODate_def)
  from same [of noon] atNoon atMidnight april inApril september inSeptember
  show ?thesis by blast
qed

text \<open>
  The claim as stated fails: at noon UTC of 2026-11-02 (day 20759), in the time zone UTC,
  an entry of 2026-10-26 (day 20752), exactly 7 days before, is dropped by the WEEK
  filter of both charts.
\<close>

theorem boundary_date_counterexample:
  "toISODate noon = 20759 \<and>
   toISODate noon - rangeDays WEEK \<le> date_fin boundaryPoint \<and>
   filterChart utcZone noon WEEK [boundaryPoint] = [] \<and>
   filterProduct utcZone noon WEEK
     [\<lparr>date_prod = 20752, real_prod = Some 5, estimated_prod = None\<rparr>] = []"
  by (simp add: filterChart_def filterProduct_def boundaryPoint_def getTime_def cutoffDate_def
      setDateBy_def UTC_of_def LocalTime_def utcZone_def rangeDays_def noon_def toISODate_def)

section \<open>The projection of the two charts\<close>

lemma upt_1_6: "[Suc 0..<6] = [1, 2, 3, 4, 5::nat]"
  by (simp add: upt_rec)

lemma upt_1_5: "[Suc 0..<5] = [1, 2, 3, 4::nat]"
  by (simp add: upt_rec)

lemma historyChart_estimated: "p \<in> set (historyChart invs) \<Longrightarrow> estimated_fin p = None"
  by (auto simp: historyChart_def Let_def)

lemma historyProduct_estimated:
  "p \<in> set (historyProduct sel invs) \<Longrightarrow> estimated_prod p = None"
  by (auto simp: historyProduct_def Let_def)

lemma filterChart_subset: "set (filterChart tza today timeRange xs) \<subseteq> set xs"
  by (auto simp: filterChart_def)

lemma filterProduct_subset: "set (filterProduct tza today timeRange xs) \<subseteq> set xs"
  by (auto simp: filterProduct_def)

lemma projectChart_long:
  "2 < length xs \<Longrightarrow>
   projectChart tza random xs =
     xs[length xs - 1 := (xs ! (length xs - 1))\<lparr>estimated_fin := sales (xs ! (length xs - 1))\<rparr>]
     @ map (\<lambda>i. \<lparr>date_fin = toISODate
                    (setDateBy tza (getTime (date_fin (xs ! (length xs - 1)))) (int i)),
                  sales = None,
                  purchases = None,
                  estimated_fin = Some (Math_round
                    (meanOf (map (\<lambda>p. numOf (sales p)) (drop (length xs - 5) xs))
                       * (1 + (random i * 0.2 - 0.1))))\<rparr>) [1..<6]"
  by (simp add: projectChart_def Let_def meanOf_def foldl_add_sum_list)

lemma projectChart_short: "\<not> 2 < length xs \<Longrightarrow> projectChart tza random xs = xs"
  by (simp add: projectChart_def)

lemma projectProduct_long:
  "1 < length xs \<Longrightarrow>
   projectProduct tza random xs =
     xs[length xs - 1 := (xs ! (length xs - 1))\<lparr>estimated_prod := real_prod (xs ! (length xs - 1))\<rparr>]
     @ map (\<lambda>i. \<lparr>date_prod = toISODate
                    (setDateBy tza (getTime (date_prod (xs ! (length xs - 1)))) (int i)),
                  real_prod = None,
                  estimated_prod = Some (max 0 (Math_round
                    (meanOf (map (\<lambda>p. numOf (real_prod p)) xs) + (random i * 2 - 1))))\<rparr>)
         [1..<5]"
  by (simp add: projectProduct_def Let_def meanOf_def foldl_add_sum_list)

lemma projectProduct_short: "\<not> 1 < length xs \<Longrightarrow> projectProduct tza random xs = xs"
  by (simp add: projectProduct_def)

lemma projectChart_has_estimate:
  assumes "\<forall>p\<in>set xs. estimated_fin p = None"
  shows "list_ex (\<lambda>p. estimated_fin p \<noteq> None) (projectChart tza random xs) \<longleftrightarrow> 2 < length xs"
proof (cases "2 < length xs")
  case True
  then show ?thesis
    by (simp add: projectChart_long upt_1_6)
next
  case False
  with assms show ?thesis
    by (simp add: projectChart_short list_ex_iff)
qed

lemma projectProduct_has_estimate:
  assumes "\<forall>p\<in>set xs. estimated_prod p = None"
  shows "list_ex (\<lambda>p. estimated_prod p \<noteq> None) (projectProduct tza random xs) \<longleftrightarrow> 1 < length xs"
proof (cases "1 < length xs")
  case True
  then show ?thesis
    by (simp add: projectProduct_long upt_1_5)
next
  case False
  with assms show ?thesis
    by (simp add: projectProduct_short list_ex_iff)
qed

lemma filtered_chart_estimated:
  "\<forall>p\<in>set (filterChart tza today timeRange (historyChart invs)). estimated_fin p = None"
  using filterChart_subset historyChart_estimated by blast

lemma filtered_product_estimated:
  "\<forall>p\<in>set (filterProduct tza today timeRange (historyProduct sel invs)). estimated_prod p = None"
  using filterProduct_subset historyProduct_estimated by blast

text \<open>
  C4, as amended. A projection (points with a projected value) is produced exactly when the
  window-filtered series has more than two points for the financial series, and more than
  one point for the per-product series. The projected values are computed from the mean
  over the last 5 filtered points (all of them if fewer) for the financial series, and
  from the mean over all filtered points for the per-product series.
\<close>

theorem projection_threshold_and_average:
  "(list_ex (\<lambda>p. estimated_fin p \<noteq> None) (generateChartData_Dashboard tza random today timeRange invs)
      \<longleftrightarrow> 2 < length (filterChart tza today timeRange (historyChart invs))) \<and>
   (2 < length (filterChart tza today timeRange (historyChart invs)) \<longrightarrow>
      map estimated_fin (drop (length (filterChart tza today timeRange (historyChart invs)))
         (generateChartData_Dashboard tza random today timeRange invs)) =
      map (\<lambda>i. Some (Math_round
             (meanOf (map (\<lambda>p. numOf (sales p))
                (drop (length (filterChart tza today timeRange (historyChart invs)) - 5)
                   (filterChart tza today timeRange (historyChart invs))))
              * (1 + (random i * 0.2 - 0.1))))) [1..<6]) \<and>
   (list_ex (\<lambda>p. estimated_prod p \<noteq> None)
      (generateChartData_ProductAnalytics tza random today timeRange sel invs)
      \<longleftrightarrow> 1 < length (filterProduct tza today timeRange (historyProduct sel invs))) \<and>
   (1 < length (filterProduct tza today timeRange (historyProduct sel invs)) \<longrightarrow>
      map estimated_prod (drop (length (filterProduct tza today timeRange (historyProduct sel invs)))
         (generateChartData_ProductAnalytics tza random today timeRange sel invs)) =
      map (\<lambda>i. Some (max 0 (Math_round
             (meanOf (map (\<lambda>p. numOf (real_prod p))
                (filterProduct tza today timeRange (historyProduct sel invs)))
              + (random i * 2 - 1))))) [1..<5])"
proof -
  let ?F = "filterChart tza today timeRange (historyChart invs)"
  let ?G = "filterProduct tza today timeRange (historyProduct sel invs)"
  have a: "list_ex (\<lambda>p. estimated_fin p \<noteq> None) (projectChart tza random ?F) \<longleftrightarrow> 2 < length ?F"
    by (rule projectChart_has_estimate [OF filtered_chart_estimated])
  have b: "list_ex (\<lambda>p. estimated_prod p \<noteq> None) (projectProduct tza random ?G) \<longleftrightarrow> 1 < length ?G"
    by (rule projectProduct_has_estimate [OF filtered_product_estimated])
  have c: "2 < length ?F \<longrightarrow>
      map estimated_fin (drop (length ?F) (projectChart tza random ?F)) =
      map (\<lambda>i. Some (Math_round
             (meanOf (map (\<lambda>p. numOf (sales p)) (drop (length ?F - 5) ?F))
              * (1 + (random i * 0.2 - 0.1))))) [1..<6]"
    by (simp add: projectChart_long)
  have d: "1 < length ?G \<longrightarrow>
      map estimated_prod (drop (length ?G) (projectProduct tza random ?G)) =
      map (\<lambda>i. Some (max 0 (Math_round
             (meanOf (map (\<lambda>p. numOf (real_prod p)) ?G) + (random i * 2 - 1))))) [1..<5]"
    by (simp add: projectProduct_long)
  from a b c d show ?thesis
    by (simp only: generateChartData_Dashboard_def generateChartData_ProductAnalytics_def)
qed

lemma threeDays_filtered:
  "filterChart utcZone noon WEEK (historyChart threeDays) =
     [\<lparr>date_fin = 20755, sales = Some 3600, purchases = Some 0, estimated_fin = None\<rparr>,
      \<lparr>date_fin = 20757, sales = Some 3600, purchases = Some 0, estimated_fin = None\<rparr>,
      \<lparr>date_fin = 20758, sales = Some 1200, purchases = Some 0, estimated_fin = None\<rparr>]"
  by code_simp

lemma threeDays_chart:
  "generateChartData_Dashboard utcZone evenDraws noon WEEK threeDays =
     [\<lparr>date_fin = 20755, sales = Some 3600, purchases = Some 0, estimated_fin = None\<rparr>,
      \<lparr>date_fin = 20757, sales = Some 3600, purchases = Some 0, estimated_fin = None\<rparr>,
      \<lparr>date_fin = 20758, sales = Some 1200, purchases = Some 0, estimated_fin = Some 1200\<rparr>,
      \<lparr>date_fin = 20759, sales = None, purchases = None, estimated_fin = Some 2800\<rparr>,
      \<lparr>date_fin = 20760, sales = None, purchases = None, estimated_fin = Some 2800\<rparr>,
      \<lparr>date_fin = 20761, sales = None, purchases = None, estimated_fin = Some 2800\<rparr>,
      \<lparr>date_fin = 20762, sales = None, purchases = None, estimated_fin = Some 2800\<rparr>,
      \<lparr>date_fin = 20763, sales = None, purchases = None, estimated_fin = Some 2800\<rparr>]"
  by code_simp

lemma threeDays_product_filtered:
  "filterProduct utcZone noon WEEK (historyProduct ''1'' threeDays) =
     [\<lparr>date_prod = 20755, real_prod = Some 3, estimated_prod = None\<rparr>,
      \<lparr>date_prod = 20757, real_prod = Some 3, estimated_prod = None\<rparr>,
      \<lparr>date_prod = 20758, real_prod = Some 1, estimated_prod = None\<rparr>]"
  by code_simp

lemma threeDays_product_chart:
  "generateChartData_ProductAnalytics utcZone evenDraws noon WEEK ''1'' threeDays =
     [\<lparr>date_prod = 20755, real_prod = Some 3, estimated_prod = None\<rparr>,
      \<lparr>date_prod = 20757, real_prod = Some 3, estimated_prod = None\<rparr>,
      \<lparr>date_prod = 20758, real_prod = Some 1, estimated_prod = Some 1\<rparr>,
      \<lparr>date_prod = 20759, real_prod = None, estimated_prod = Some 2\<rparr>,
      \<lparr>date_prod = 20760, real_prod = None, estimated_prod = Some 2\<rparr>,
      \<lparr>date_prod = 20761, real_prod = None, estimated_prod = Some 2\<rparr>,
      \<lparr>date_prod = 20762, real_prod = None, estimated_prod = Some 2\<rparr>]"
  by code_simp

theorem projection_threshold_and_average_witness:
  "2 < length (filterChart utcZone noon WEEK (historyChart threeDays)) \<and>
   list_ex (\<lambda>p. estimated_fin p \<noteq> None) (generateChartData_Dashboard utcZone evenDraws noon WEEK threeDays) \<and>
   map estimated_fin (drop 3 (generateChartData_Dashboard utcZone evenDraws noon WEEK threeDays)) =
     [Some 2800, Some 2800, Some 2800, Some 2800, Some 2800] \<and>
   1 < length (filterProduct utcZone noon WEEK (historyProduct ''1'' threeDays)) \<and>
   list_ex (\<lambda>p. estimated_prod p \<noteq> None)
     (generateChartData_ProductAnalytics utcZone evenDraws noon WEEK ''1'' threeDays) \<and>
   map estimated_prod
     (drop 3 (generateChartData_ProductAnalytics utcZone evenDraws noon WEEK ''1'' threeDays)) =
     [Some 2, Some 2, Some 2, Some 2]"
  using projection_threshold_and_average [of utcZone evenDraws noon WEEK threeDays "''1''"]
  by (simp add: threeDays_filtered threeDays_chart threeDays_product_filtered
      threeDays_product_chart)

text \<open>
  The claim as stated fails: a financial series of two points and a per-product series of
  one point are returned as they are, with no projection.
\<close>

theorem projection_threshold_counterexample:
  "filterChart utcZone noon WEEK (historyChart twoDays) =
     [\<lparr>date_fin = 20755, sales = Some 3600, purchases = Some 0, estimated_fin = None\<rparr>,
      \<lparr>date_fin = 20757, sales = Some 3600, purchases = Some 0, estimated_fin = None\<rparr>] \<and>
   generateChartData_Dashboard utcZone evenDraws noon WEEK twoDays =
     filterChart utcZone noon WEEK (historyChart twoDays) \<and>
   filterProduct utcZone noon WEEK (historyProduct ''1'' oneDay) =
     [\<lparr>date_prod = 20757, real_prod = Some 3, estimated_prod = None\<rparr>] \<and>
   generateChartData_ProductAnalytics utcZone evenDraws noon WEEK ''1'' oneDay =
     filterProduct utcZone noon WEEK (historyProduct ''1'' oneDay)"
  by code_simp














end
